theory Spec2Isabelle
  imports Main "HOL-Library.Sublist"
begin

section \<open>The signup page of src/app/auth/signup/page.jsx\<close>

text \<open>
  The page is a React component. Its \<open>useState\<close> cells are the fields of one record;
  a setter call is a record update, and after a handler has run the last write to a cell
  is the value the next render shows. JavaScript strings are modelled as \<open>string\<close>
  (code units in the range of \<open>char\<close>). The cells \<open>showPassword\<close>,
  \<open>showConfirmPassword\<close> and \<open>touched\<close> are not read or written by
  \<open>validateForm\<close> and \<open>handleSubmit\<close> and are left out.
\<close>

subsection \<open>State\<close>

record signup_state =
  email :: string
  password :: string
  confirmPassword :: string
  firstName :: string
  lastName :: string
  studentId :: string
  role :: string
  error :: "string option"
  isLoading :: bool
  showSuccess :: bool

text \<open>The state a fresh page starts in: the initial values of the \<open>useState\<close> calls.\<close>

definition initial_state :: signup_state where
  "initial_state =
     \<lparr>email = [], password = [], confirmPassword = [], firstName = [], lastName = [],
      studentId = [], role = ''student'', error = None, isLoading = False,
      showSuccess = False\<rparr>"

subsection \<open>Requests to the two external services\<close>

text \<open>The \<open>options.data\<close> object of \<open>supabase.auth.signUp\<close>; \<open>null\<close> is \<open>None\<close>.\<close>

record signup_metadata =
  first_name :: string
  last_name :: string
  student_id :: "string option"
  role_id :: int

record signup_request =
  req_email :: string
  req_password :: string
  req_data :: signup_metadata

text \<open>The row handed to \<open>supabase.from('users').insert\<close>.\<close>

record profile_row =
  row_id :: string
  row_fname :: string
  row_lname :: string
  row_email :: string
  row_role_id :: int
  row_student_id :: "string option"
  row_password :: string

text \<open>
  The callback given to \<open>setTimeout\<close> closes over the \<open>role\<close> of the render that
  submitted; it decides the destination when it runs.
\<close>

datatype callback = RedirectByRole string

datatype effect =
    SignUp signup_request
  | InsertUsers profile_row
  | SetTimeout callback nat

fun run_callback :: "callback \<Rightarrow> string" where
  "run_callback (RedirectByRole r) =
     (if r = ''student'' then ''/dashboard/student'' else ''/dashboard/admin'')"

text \<open>
  What the page imports and calls but does not define: the password policy of
  \<open>@/utils/validation\<close> (a message, or a falsy value when the password is accepted),
  the auth service (an error with a message, or the new user's id) and the data store
  (an error with a message, or nothing). They are parameters of the model.
\<close>

record services =
  validatePassword :: "string \<Rightarrow> string option"
  auth_signUp :: "signup_request \<Rightarrow> string + string"
  users_insert :: "profile_row \<Rightarrow> string option"

subsection \<open>JavaScript helpers\<close>

text \<open>\<open>if (passwordError)\<close>: \<open>null\<close> and the empty string are falsy.\<close>

fun truthy :: "string option \<Rightarrow> bool" where
  "truthy None = False"
| "truthy (Some m) = (m \<noteq> [])"

text \<open>
  \<open>s.split(c)\<close> for a one-character separator: the pieces between the separators,
  always at least one piece (\<open>"".split('@')\<close> is \<open>[""]\<close>). The result of the
  recursive call is never empty (\<open>split_nonempty\<close> below), so the last branch of the
  \<open>case\<close> is never taken.
\<close>

fun split :: "char \<Rightarrow> string \<Rightarrow> string list" where
  "split c [] = [[]]"
| "split c (x # xs) =
     (if x = c then [] # split c xs
      else (case split c xs of p # ps \<Rightarrow> (x # p) # ps | [] \<Rightarrow> [[x]]))"

text \<open>
  The regular expression \<open>/^\d{4}20\d{2}$/\<close>: a sequence of atoms, each consuming one
  character, anchored at both ends (no flags, so \<open>$\<close> is the end of the input and
  \<open>\d\<close> is an ASCII digit).
\<close>

datatype atom = Digit | Lit char

definition is_digit :: "char \<Rightarrow> bool" where
  "is_digit c = (c \<in> set ''0123456789'')"

fun atom_matches :: "atom \<Rightarrow> char \<Rightarrow> bool" where
  "atom_matches Digit c = is_digit c"
| "atom_matches (Lit l) c = (c = l)"

fun test :: "atom list \<Rightarrow> string \<Rightarrow> bool" where
  "test [] [] = True"
| "test [] (c # cs) = False"
| "test (a # as) [] = False"
| "test (a # as) (c # cs) = (atom_matches a c \<and> test as cs)"

definition studentIdPattern :: "atom list" where
  "studentIdPattern =
     replicate 4 Digit @ [Lit (CHR ''2''), Lit (CHR ''0'')] @ replicate 2 Digit"

subsection \<open>The handlers\<close>

definition validateForm :: "services \<Rightarrow> signup_state \<Rightarrow> bool \<times> signup_state" where
  "validateForm sv s =
     (let passwordError = validatePassword sv (password s) in
      if truthy passwordError then (False, s\<lparr>error := passwordError\<rparr>)
      else if password s \<noteq> confirmPassword s
        then (False, s\<lparr>error := Some ''Passwords don't match''\<rparr>)
      else (True, s))"

text \<open>The argument of \<open>supabase.auth.signUp\<close> and the row of the insert.\<close>

definition signUp_args :: "signup_state \<Rightarrow> signup_request" where
  "signUp_args s =
     \<lparr>req_email = email s, req_password = password s,
      req_data = \<lparr>first_name = firstName s, last_name = lastName s,
        student_id = (if role s = ''student'' then Some (studentId s) else None),
        role_id = (if role s = ''student'' then 3 else 2)\<rparr>\<rparr>"

definition insert_args :: "string \<Rightarrow> signup_state \<Rightarrow> profile_row" where
  "insert_args uid s =
     \<lparr>row_id = uid, row_fname = firstName s, row_lname = lastName s, row_email = email s,
      row_role_id = (if role s = ''student'' then 3 else 2),
      row_student_id = (if role s = ''student'' then Some (studentId s) else None),
      row_password = ''hashed_by_supabase''\<rparr>"

text \<open>
  The body of the \<open>try\<close> block: \<open>Inl\<close> is the message of the thrown error, with the
  calls made before the throw.
\<close>

definition try_block ::
  "services \<Rightarrow> signup_state \<Rightarrow> (string + signup_state) \<times> effect list" where
  "try_block sv s =
     (case auth_signUp sv (signUp_args s) of
        Inl authError \<Rightarrow> (Inl authError, [SignUp (signUp_args s)])
      | Inr uid \<Rightarrow>
          (case users_insert sv (insert_args uid s) of
             Some profileError \<Rightarrow>
               (Inl profileError, [SignUp (signUp_args s), InsertUsers (insert_args uid s)])
           | None \<Rightarrow>
               (Inr (s\<lparr>showSuccess := True\<rparr>),
                [SignUp (signUp_args s), InsertUsers (insert_args uid s),
                 SetTimeout (RedirectByRole (role s)) 5000])))"

text \<open>The \<open>try\<close> with its \<open>catch\<close>, which shows the message and clears the busy flag.\<close>

definition try_catch :: "services \<Rightarrow> signup_state \<Rightarrow> signup_state \<times> effect list" where
  "try_catch sv s =
     (case try_block sv s of
        (Inl message, calls) \<Rightarrow> (s\<lparr>error := Some message, isLoading := False\<rparr>, calls)
      | (Inr s', calls) \<Rightarrow> (s', calls))"

text \<open>
  \<open>handleSubmit\<close> returns the state after the handler and the external calls it made,
  in order. \<open>parts ! 1\<close> is only looked at when there are exactly two parts, as the
  \<open>||\<close> of the source does.
\<close>

definition handleSubmit :: "services \<Rightarrow> signup_state \<Rightarrow> signup_state \<times> effect list" where
  "handleSubmit sv s0 =
     (let s1 = s0\<lparr>isLoading := True, error := None\<rparr> in
      case validateForm sv s1 of
        (False, s2) \<Rightarrow> (s2\<lparr>isLoading := False\<rparr>, [])
      | (True, s2) \<Rightarrow>
         (let parts = split (CHR ''@'') (email s2) in
          if length parts \<noteq> 2 \<or>
             (parts ! 1 \<noteq> ''ashesi.edu.gh'' \<and> parts ! 1 \<noteq> ''aucampus.onmicrosoft.com'')
          then (s2\<lparr>error := Some ''Only Ashesi email addresses are allowed (ashesi.edu.gh or aucampus.onmicrosoft.com)'',
                   isLoading := False\<rparr>, [])
          else if role s2 = ''student'' \<and> studentId s2 = []
          then (s2\<lparr>error := Some ''Student ID is required'', isLoading := False\<rparr>, [])
          else if role s2 = ''student'' \<and> \<not> test studentIdPattern (studentId s2)
          then (s2\<lparr>error := Some ''Invalid Student ID format. Expected format: XXXX20XX'',
                   isLoading := False\<rparr>, [])
          else try_catch sv s2))"

subsection \<open>The specification's wording\<close>

text \<open>
  The email check as the specification words it: split on \<open>@\<close>, exactly two parts, the
  second one of the two allowed domains.
\<close>

definition spec_email_domain_ok :: "string \<Rightarrow> bool" where
  "spec_email_domain_ok e =
     (case split (CHR ''@'') e of
        [local_part, domain] \<Rightarrow>
          domain = ''ashesi.edu.gh'' \<or> domain = ''aucampus.onmicrosoft.com''
      | _ \<Rightarrow> False)"

text \<open>
  The student ID as the specification words it: four digits, the literal \<open>20\<close>, two
  digits, eight characters in all.
\<close>

definition spec_studentId_ok :: "string \<Rightarrow> bool" where
  "spec_studentId_ok sid =
     (length sid = 8 \<and> list_all is_digit (take 4 sid) \<and> take 2 (drop 4 sid) = ''20'' \<and>
      list_all is_digit (drop 6 sid))"

text \<open>
  The checks in the specification's order, each with whether it fails and its message;
  validation reports the message of the first failing check.
\<close>

definition spec_checks :: "services \<Rightarrow> signup_state \<Rightarrow> (bool \<times> string) list" where
  "spec_checks sv s =
     [(truthy (validatePassword sv (password s)),
       (case validatePassword sv (password s) of Some m \<Rightarrow> m | None \<Rightarrow> [])),
      (password s \<noteq> confirmPassword s, ''Passwords don't match''),
      (\<not> spec_email_domain_ok (email s),
       ''Only Ashesi email addresses are allowed (ashesi.edu.gh or aucampus.onmicrosoft.com)''),
      (role s = ''student'' \<and> studentId s = [], ''Student ID is required''),
      (role s = ''student'' \<and> \<not> spec_studentId_ok (studentId s),
       ''Invalid Student ID format. Expected format: XXXX20XX'')]"

definition spec_validate :: "services \<Rightarrow> signup_state \<Rightarrow> string option" where
  "spec_validate sv s = map_option snd (find fst (spec_checks sv s))"

text \<open>What a call sends as student ID and role identifier.\<close>

fun sent_fields :: "effect \<Rightarrow> (string option \<times> int) option" where
  "sent_fields (SignUp r) = Some (student_id (req_data r), role_id (req_data r))"
| "sent_fields (InsertUsers row) = Some (row_student_id row, row_role_id row)"
| "sent_fields (SetTimeout cb delay) = None"

subsection \<open>Concrete services and drafts for evaluation\<close>

definition demo_services :: services where
  "demo_services =
     \<lparr>validatePassword =
        (\<lambda>p. if length p < 8 then Some ''Password must be at least 8 characters long''
              else None),
      auth_signUp =
        (\<lambda>r. if req_email r = ''taken@ashesi.edu.gh'' then Inl ''User already registered''
              else Inr ''user-1''),
      users_insert =
        (\<lambda>row. if row_lname row = [] then Some ''null value in column lname'' else None)\<rparr>"

definition student_draft :: signup_state where
  "student_draft =
     initial_state\<lparr>email := ''ama@ashesi.edu.gh'', password := ''Abc123!@'',
       confirmPassword := ''Abc123!@'', firstName := ''Ama'', lastName := ''Mensah'',
       studentId := ''12342023''\<rparr>"

definition admin_draft :: signup_state where
  "admin_draft =
     initial_state\<lparr>email := ''kofi@aucampus.onmicrosoft.com'', password := ''Abc123!@'',
       confirmPassword := ''Abc123!@'', firstName := ''Kofi'', lastName := ''Boateng'',
       studentId := ''junk'', role := ''admin''\<rparr>"

section \<open>Auxiliary facts\<close>

subsection \<open>The pattern and the split\<close>

lemma studentIdPattern_atoms:
  "studentIdPattern =
     [Digit, Digit, Digit, Digit, Lit (CHR ''2''), Lit (CHR ''0''), Digit, Digit]"
  by (simp add: studentIdPattern_def eval_nat_numeral)

lemma test_Nil: "test [] s = (s = [])"
  by (cases s) simp_all

lemma test_Cons:
  "test (a # as) s = (case s of [] \<Rightarrow> False | c # cs \<Rightarrow> atom_matches a c \<and> test as cs)"
  by (cases s) simp_all

lemma test_length: "test as s \<Longrightarrow> length s = length as"
  by (induction as s rule: test.induct) simp_all

lemma length_eq_8:
  "length s = 8 \<longleftrightarrow> (\<exists>a b c d e f g h. s = [a, b, c, d, e, f, g, h])"
  by (auto simp: eval_nat_numeral length_Suc_conv)

lemma test_studentIdPattern: "test studentIdPattern s = spec_studentId_ok s"
proof (cases "length s = 8")
  case True
  then obtain a b c d e f g h where "s = [a, b, c, d, e, f, g, h]"
    unfolding length_eq_8 by blast
  then show ?thesis
    by (auto simp: studentIdPattern_atoms spec_studentId_ok_def eval_nat_numeral)
next
  case False
  then have "\<not> test studentIdPattern s"
    using test_length [of studentIdPattern s] by (auto simp: studentIdPattern_atoms)
  with False show ?thesis by (simp add: spec_studentId_ok_def)
qed

lemma split_nonempty: "split c s \<noteq> []"
  by (induction s) (auto split: list.splits)

lemma split_one: "split c s = [a] \<Longrightarrow> s = a"
proof (induction s arbitrary: a)
  case Nil
  then show ?case by simp
next
  case (Cons x xs)
  then show ?case
    by (auto simp: split_nonempty split: if_splits list.splits)
qed

lemma split_two: "split c s = [a, b] \<Longrightarrow> s = a @ c # b"
proof (induction s arbitrary: a)
  case Nil
  then show ?case by simp
next
  case (Cons x xs)
  then show ?case
    by (auto simp: split_nonempty split: if_splits list.splits dest: split_one)
qed

lemma spec_email_domain_ok_parts:
  "spec_email_domain_ok e \<longleftrightarrow>
     \<not> (length (split (CHR ''@'') e) \<noteq> 2 \<or>
        (split (CHR ''@'') e ! 1 \<noteq> ''ashesi.edu.gh'' \<and>
         split (CHR ''@'') e ! 1 \<noteq> ''aucampus.onmicrosoft.com''))"
  unfolding spec_email_domain_ok_def
  by (auto simp: eval_nat_numeral length_Suc_conv split: list.splits)

lemma spec_email_domain_ok_suffix:
  assumes "spec_email_domain_ok e"
  shows "suffix ''@ashesi.edu.gh'' e \<or> suffix ''@aucampus.onmicrosoft.com'' e"
proof -
  from assms obtain l d where sp: "split (CHR ''@'') e = [l, d]"
    and d: "d = ''ashesi.edu.gh'' \<or> d = ''aucampus.onmicrosoft.com''"
    unfolding spec_email_domain_ok_def by (auto split: list.splits)
  from split_two [OF sp] have "e = l @ CHR ''@'' # d" .
  with d show ?thesis by (auto simp: suffix_def)
qed

subsection \<open>The handler as validation followed by the two calls\<close>

lemma handleSubmit_eq:
  "handleSubmit sv s =
     (case spec_validate sv s of
        Some m \<Rightarrow> (s\<lparr>error := Some m, isLoading := False\<rparr>, [])
      | None \<Rightarrow> try_catch sv (s\<lparr>isLoading := True, error := None\<rparr>))"
proof (cases "validatePassword sv (password s)")
  case None
  then show ?thesis
    by (simp add: handleSubmit_def validateForm_def spec_validate_def spec_checks_def
        spec_email_domain_ok_parts test_studentIdPattern Let_def)
next
  case (Some m)
  then show ?thesis
    by (simp add: handleSubmit_def validateForm_def spec_validate_def spec_checks_def
        spec_email_domain_ok_parts test_studentIdPattern Let_def)
qed

subsection \<open>The two calls\<close>

lemma signUp_args_flags [simp]:
  "signUp_args (s\<lparr>isLoading := l, error := e\<rparr>) = signUp_args s"
  by (simp add: signUp_args_def)

lemma insert_args_flags [simp]:
  "insert_args uid (s\<lparr>isLoading := l, error := e\<rparr>) = insert_args uid s"
  by (simp add: insert_args_def)

lemma try_catch_auth_error:
  "auth_signUp sv (signUp_args s) = Inl m \<Longrightarrow>
   try_catch sv (s\<lparr>isLoading := True, error := None\<rparr>) =
     (s\<lparr>error := Some m, isLoading := False\<rparr>, [SignUp (signUp_args s)])"
  by (simp add: try_catch_def try_block_def)

lemma try_catch_insert_error:
  "auth_signUp sv (signUp_args s) = Inr uid \<Longrightarrow>
   users_insert sv (insert_args uid s) = Some m \<Longrightarrow>
   try_catch sv (s\<lparr>isLoading := True, error := None\<rparr>) =
     (s\<lparr>error := Some m, isLoading := False\<rparr>,
      [SignUp (signUp_args s), InsertUsers (insert_args uid s)])"
  by (simp add: try_catch_def try_block_def)

lemma try_catch_success:
  "auth_signUp sv (signUp_args s) = Inr uid \<Longrightarrow>
   users_insert sv (insert_args uid s) = None \<Longrightarrow>
   try_catch sv (s\<lparr>isLoading := True, error := None\<rparr>) =
     (s\<lparr>error := None, isLoading := True, showSuccess := True\<rparr>,
      [SignUp (signUp_args s), InsertUsers (insert_args uid s),
       SetTimeout (RedirectByRole (role s)) 5000])"
  by (simp add: try_catch_def try_block_def)

lemma try_catch_calls:
  "\<exists>rest. snd (try_catch sv (s\<lparr>isLoading := True, error := None\<rparr>)) =
     SignUp (signUp_args s) # rest"
  by (simp add: try_catch_def try_block_def split: sum.splits option.splits)

lemma spec_validate_password:
  "truthy (validatePassword sv (password s)) \<Longrightarrow>
   spec_validate sv s = validatePassword sv (password s)"
  by (cases "validatePassword sv (password s)") (simp_all add: spec_validate_def spec_checks_def)

lemma spec_validate_rest:
  "\<not> truthy (validatePassword sv (password s)) \<Longrightarrow>
   spec_validate sv s =
     (if password s \<noteq> confirmPassword s then Some ''Passwords don't match''
      else if \<not> spec_email_domain_ok (email s)
        then Some ''Only Ashesi email addresses are allowed (ashesi.edu.gh or aucampus.onmicrosoft.com)''
      else if role s = ''student'' \<and> studentId s = [] then Some ''Student ID is required''
      else if role s = ''student'' \<and> \<not> spec_studentId_ok (studentId s)
        then Some ''Invalid Student ID format. Expected format: XXXX20XX''
      else None)"
  by (simp add: spec_validate_def spec_checks_def)

lemma first_failing:
  "map_option snd (find fst xs) = Some m \<longleftrightarrow>
     (\<exists>i<length xs. fst (xs ! i) \<and> snd (xs ! i) = m \<and> (\<forall>j<i. \<not> fst (xs ! j)))"
proof
  assume "map_option snd (find fst xs) = Some m"
  then obtain p where "find fst xs = Some p" and "snd p = m"
    by auto
  then show "\<exists>i<length xs. fst (xs ! i) \<and> snd (xs ! i) = m \<and> (\<forall>j<i. \<not> fst (xs ! j))"
    unfolding find_Some_iff by auto
next
  assume "\<exists>i<length xs. fst (xs ! i) \<and> snd (xs ! i) = m \<and> (\<forall>j<i. \<not> fst (xs ! j))"
  then obtain i where "i < length xs" "fst (xs ! i)" "snd (xs ! i) = m" "\<forall>j<i. \<not> fst (xs ! j)"
    by blast
  then have "find fst xs = Some (xs ! i)"
    unfolding find_Some_iff by blast
  with \<open>snd (xs ! i) = m\<close> show "map_option snd (find fst xs) = Some m"
    by simp
qed

subsection \<open>The student ID of a role other than student\<close>

lemma spec_validate_studentId:
  "role s \<noteq> ''student'' \<Longrightarrow> spec_validate sv (s\<lparr>studentId := x\<rparr>) = spec_validate sv s"
  by (simp add: spec_validate_def spec_checks_def)

lemma try_catch_studentId:
  "role s \<noteq> ''student'' \<Longrightarrow>
   try_catch sv (s\<lparr>studentId := x, isLoading := True, error := None\<rparr>) =
     (fst (try_catch sv (s\<lparr>isLoading := True, error := None\<rparr>))\<lparr>studentId := x\<rparr>,
      snd (try_catch sv (s\<lparr>isLoading := True, error := None\<rparr>)))"
  by (simp add: try_catch_def try_block_def signUp_args_def insert_args_def
      split: sum.splits option.splits)

lemma try_catch_sent_fields:
  "e \<in> set (snd (try_catch sv (s\<lparr>isLoading := True, error := None\<rparr>))) \<Longrightarrow>
   sent_fields e = Some f \<Longrightarrow>
   f = (if role s = ''student'' then (Some (studentId s), 3) else (None, 2))"
  by (auto simp: try_catch_def try_block_def signUp_args_def insert_args_def
      split: sum.splits option.splits)

section \<open>The claims\<close>

text \<open>
  C1. At submission the checks run in the specification's order (password policy,
  password equality, email domain, then for a student the presence and the pattern of
  the student ID) and stop at the first failure: the handler shows exactly the message
  of the first failing check, clears the busy flag and makes no call; when no check
  fails it goes on to the two calls. The messages the page itself produces are pairwise
  different; the message of the password policy is the one the policy function returns.
\<close>

theorem validation_order:
  "handleSubmit sv s =
     (case spec_validate sv s of
        Some m \<Rightarrow> (s\<lparr>error := Some m, isLoading := False\<rparr>, [])
      | None \<Rightarrow> try_catch sv (s\<lparr>isLoading := True, error := None\<rparr>)) \<and>
   (spec_validate sv s = Some m \<longleftrightarrow>
      (\<exists>i<length (spec_checks sv s).
         fst (spec_checks sv s ! i) \<and> snd (spec_checks sv s ! i) = m \<and>
         (\<forall>j<i. \<not> fst (spec_checks sv s ! j)))) \<and>
   distinct [''Passwords don't match'',
     ''Only Ashesi email addresses are allowed (ashesi.edu.gh or aucampus.onmicrosoft.com)'',
     ''Student ID is required'', ''Invalid Student ID format. Expected format: XXXX20XX'']"
proof -
  have "spec_validate sv s = Some m \<longleftrightarrow>
      (\<exists>i<length (spec_checks sv s).
         fst (spec_checks sv s ! i) \<and> snd (spec_checks sv s ! i) = m \<and>
         (\<forall>j<i. \<not> fst (spec_checks sv s ! j)))"
    unfolding spec_validate_def by (rule first_failing)
  then show ?thesis
    using handleSubmit_eq [of sv s] by simp
qed

theorem validation_order_witness:
  "handleSubmit demo_services
     (student_draft\<lparr>password := ''short'', confirmPassword := ''other'',
        email := ''ama@gmail.com'', studentId := ''1''\<rparr>) =
     (student_draft\<lparr>password := ''short'', confirmPassword := ''other'',
        email := ''ama@gmail.com'', studentId := ''1'',
        error := Some ''Password must be at least 8 characters long''\<rparr>, []) \<and>
   handleSubmit demo_services
     (student_draft\<lparr>confirmPassword := ''other'', email := ''ama@gmail.com'',
        studentId := ''1''\<rparr>) =
     (student_draft\<lparr>confirmPassword := ''other'', email := ''ama@gmail.com'',
        studentId := ''1'', error := Some ''Passwords don't match''\<rparr>, []) \<and>
   handleSubmit demo_services (student_draft\<lparr>email := ''ama@gmail.com'', studentId := ''1''\<rparr>) =
     (student_draft\<lparr>email := ''ama@gmail.com'', studentId := ''1'',
        error := Some ''Only Ashesi email addresses are allowed (ashesi.edu.gh or aucampus.onmicrosoft.com)''\<rparr>, [])"
  using validation_order [of demo_services
      "student_draft\<lparr>password := ''short'', confirmPassword := ''other'',
        email := ''ama@gmail.com'', studentId := ''1''\<rparr>"]
    validation_order [of demo_services
      "student_draft\<lparr>confirmPassword := ''other'', email := ''ama@gmail.com'',
        studentId := ''1''\<rparr>"]
    validation_order [of demo_services
      "student_draft\<lparr>email := ''ama@gmail.com'', studentId := ''1''\<rparr>"]
  by (simp add: spec_validate_def spec_checks_def spec_email_domain_ok_def
      spec_studentId_ok_def demo_services_def student_draft_def initial_state_def)

text \<open>
  C2. Once the password checks have passed, every email that ends in neither
  \<open>@ashesi.edu.gh\<close> nor \<open>@aucampus.onmicrosoft.com\<close> is refused with the domain
  message, the busy flag cleared and no call made. More exactly, the submission stops
  with the domain message if and only if splitting the email on \<open>@\<close> does not give
  exactly two parts of which the second is one of the two allowed domains.
\<close>

theorem email_domain_check:
  assumes "\<not> truthy (validatePassword sv (password s))"
    and "password s = confirmPassword s"
  shows "(\<not> suffix ''@ashesi.edu.gh'' (email s) \<and>
          \<not> suffix ''@aucampus.onmicrosoft.com'' (email s) \<longrightarrow>
            handleSubmit sv s =
              (s\<lparr>error := Some ''Only Ashesi email addresses are allowed (ashesi.edu.gh or aucampus.onmicrosoft.com)'',
                  isLoading := False\<rparr>, [])) \<and>
         (handleSubmit sv s =
            (s\<lparr>error := Some ''Only Ashesi email addresses are allowed (ashesi.edu.gh or aucampus.onmicrosoft.com)'',
                isLoading := False\<rparr>, [])
          \<longleftrightarrow> \<not> (\<exists>local_part domain.
                   split (CHR ''@'') (email s) = [local_part, domain] \<and>
                   (domain = ''ashesi.edu.gh'' \<or> domain = ''aucampus.onmicrosoft.com'')))"
proof -
  let ?fail = "(s\<lparr>error := Some ''Only Ashesi email addresses are allowed (ashesi.edu.gh or aucampus.onmicrosoft.com)'',
                  isLoading := False\<rparr>, [])"
  have parts: "spec_email_domain_ok (email s) \<longleftrightarrow>
      (\<exists>local_part domain.
          split (CHR ''@'') (email s) = [local_part, domain] \<and>
          (domain = ''ashesi.edu.gh'' \<or> domain = ''aucampus.onmicrosoft.com''))"
    unfolding spec_email_domain_ok_def by (auto split: list.splits)
  have bad: "handleSubmit sv s = ?fail" if "\<not> spec_email_domain_ok (email s)"
    using that assms by (simp add: handleSubmit_eq spec_validate_rest)
  have good: "handleSubmit sv s \<noteq> ?fail" if ok: "spec_email_domain_ok (email s)"
  proof
    assume eq: "handleSubmit sv s = ?fail"
    show False
    proof (cases "spec_validate sv s")
      case None
      then have "snd (handleSubmit sv s) = snd (try_catch sv (s\<lparr>isLoading := True, error := None\<rparr>))"
        by (simp add: handleSubmit_eq)
      with try_catch_calls [of sv s] eq show False by auto
    next
      case (Some m)
      then have "error (fst (handleSubmit sv s)) = Some m"
        by (simp add: handleSubmit_eq)
      moreover from Some ok assms have
        "m \<noteq> ''Only Ashesi email addresses are allowed (ashesi.edu.gh or aucampus.onmicrosoft.com)''"
        by (auto simp: spec_validate_rest split: if_splits)
      ultimately show False using eq by simp
    qed
  qed
  from bad spec_email_domain_ok_suffix [of "email s"] good parts show ?thesis
    by blast
qed

theorem email_domain_check_witness:
  "\<not> truthy (validatePassword demo_services ''Abc123!@'') \<and>
   \<not> suffix ''@ashesi.edu.gh'' ''ama@gmail.com'' \<and>
   \<not> suffix ''@aucampus.onmicrosoft.com'' ''ama@gmail.com'' \<and>
   handleSubmit demo_services (student_draft\<lparr>email := ''ama@gmail.com''\<rparr>) =
     (student_draft\<lparr>email := ''ama@gmail.com'',
        error := Some ''Only Ashesi email addresses are allowed (ashesi.edu.gh or aucampus.onmicrosoft.com)''\<rparr>, []) \<and>
   split (CHR ''@'') ''ama@x@ashesi.edu.gh'' = [''ama'', ''x'', ''ashesi.edu.gh''] \<and>
   handleSubmit demo_services (student_draft\<lparr>email := ''ama@x@ashesi.edu.gh''\<rparr>) =
     (student_draft\<lparr>email := ''ama@x@ashesi.edu.gh'',
        error := Some ''Only Ashesi email addresses are allowed (ashesi.edu.gh or aucampus.onmicrosoft.com)''\<rparr>, [])"
  using email_domain_check [of demo_services "student_draft\<lparr>email := ''ama@gmail.com''\<rparr>"]
    email_domain_check [of demo_services "student_draft\<lparr>email := ''ama@x@ashesi.edu.gh''\<rparr>"]
  by (simp add: demo_services_def student_draft_def initial_state_def suffix_to_prefix)

text \<open>
  C3. For a student whose earlier checks have passed, an empty student ID is
  refused with the message that it is required, a non-empty one that is not four digits,
  the literal \<open>20\<close> and two digits (eight characters) is refused with the format
  message, and one of that shape goes on to the auth call. The regular expression of the
  page accepts exactly the strings of that shape, and \<open>12342023\<close> is one of them.
\<close>

theorem studentId_check:
  assumes "role s = ''student''"
    and "\<not> truthy (validatePassword sv (password s))"
    and "password s = confirmPassword s"
    and "spec_email_domain_ok (email s)"
  shows "(studentId s = [] \<longrightarrow>
            handleSubmit sv s =
              (s\<lparr>error := Some ''Student ID is required'', isLoading := False\<rparr>, [])) \<and>
         (studentId s \<noteq> [] \<and> \<not> spec_studentId_ok (studentId s) \<longrightarrow>
            handleSubmit sv s =
              (s\<lparr>error := Some ''Invalid Student ID format. Expected format: XXXX20XX'',
                  isLoading := False\<rparr>, [])) \<and>
         (spec_studentId_ok (studentId s) \<longrightarrow>
            handleSubmit sv s = try_catch sv (s\<lparr>isLoading := True, error := None\<rparr>) \<and>
            (\<exists>rest. snd (handleSubmit sv s) = SignUp (signUp_args s) # rest)) \<and>
         test studentIdPattern (studentId s) = spec_studentId_ok (studentId s) \<and>
         spec_studentId_ok ''12342023''"
proof -
  have "spec_studentId_ok ''12342023''"
    by (simp add: spec_studentId_ok_def is_digit_def)
  moreover have "studentId s \<noteq> []" if "spec_studentId_ok (studentId s)"
    using that by (auto simp: spec_studentId_ok_def)
  ultimately show ?thesis
    using assms try_catch_calls [of sv s]
    by (auto simp: handleSubmit_eq spec_validate_rest test_studentIdPattern)
qed

theorem studentId_check_witness:
  "role student_draft = ''student'' \<and>
   \<not> truthy (validatePassword demo_services (password student_draft)) \<and>
   spec_email_domain_ok (email student_draft) \<and>
   handleSubmit demo_services (student_draft\<lparr>studentId := []\<rparr>) =
     (student_draft\<lparr>studentId := [], error := Some ''Student ID is required''\<rparr>, []) \<and>
   \<not> spec_studentId_ok ''12340099'' \<and>
   handleSubmit demo_services (student_draft\<lparr>studentId := ''12340099''\<rparr>) =
     (student_draft\<lparr>studentId := ''12340099'',
        error := Some ''Invalid Student ID format. Expected format: XXXX20XX''\<rparr>, []) \<and>
   handleSubmit demo_services (student_draft\<lparr>studentId := ''1234''\<rparr>) =
     (student_draft\<lparr>studentId := ''1234'',
        error := Some ''Invalid Student ID format. Expected format: XXXX20XX''\<rparr>, []) \<and>
   test studentIdPattern ''12342023'' \<and>
   snd (handleSubmit demo_services student_draft) =
     [SignUp (signUp_args student_draft), InsertUsers (insert_args ''user-1'' student_draft),
      SetTimeout (RedirectByRole ''student'') 5000]"
  using studentId_check [of "student_draft\<lparr>studentId := []\<rparr>" demo_services]
    studentId_check [of "student_draft\<lparr>studentId := ''12340099''\<rparr>" demo_services]
    studentId_check [of "student_draft\<lparr>studentId := ''1234''\<rparr>" demo_services]
    studentId_check [of student_draft demo_services]
  by (simp add: demo_services_def student_draft_def initial_state_def spec_email_domain_ok_def
      spec_studentId_ok_def is_digit_def try_catch_def try_block_def signUp_args_def
      insert_args_def)

text \<open>
  C4. When the password policy accepts the password, \<open>validateForm\<close>
  succeeds exactly when password and confirmation are the same string; when they differ
  it sets the mismatch message, and the submission ends there with the busy flag cleared
  and without any call.
\<close>

theorem password_equality_check:
  assumes "\<not> truthy (validatePassword sv (password s))"
  shows "fst (validateForm sv s) = (password s = confirmPassword s) \<and>
         (password s = confirmPassword s \<longrightarrow> validateForm sv s = (True, s)) \<and>
         (password s \<noteq> confirmPassword s \<longrightarrow>
            validateForm sv s = (False, s\<lparr>error := Some ''Passwords don't match''\<rparr>) \<and>
            handleSubmit sv s =
              (s\<lparr>error := Some ''Passwords don't match'', isLoading := False\<rparr>, []))"
  using assms by (auto simp: validateForm_def Let_def handleSubmit_eq spec_validate_rest)

theorem password_equality_check_witness:
  "\<not> truthy (validatePassword demo_services ''Abc123!@'') \<and>
   validateForm demo_services student_draft = (True, student_draft) \<and>
   validateForm demo_services (student_draft\<lparr>confirmPassword := ''different''\<rparr>) =
     (False, student_draft\<lparr>confirmPassword := ''different'',
        error := Some ''Passwords don't match''\<rparr>) \<and>
   handleSubmit demo_services (student_draft\<lparr>confirmPassword := ''different''\<rparr>) =
     (student_draft\<lparr>confirmPassword := ''different'',
        error := Some ''Passwords don't match''\<rparr>, [])"
  using password_equality_check [of demo_services student_draft]
    password_equality_check [of demo_services "student_draft\<lparr>confirmPassword := ''different''\<rparr>"]
  by (simp add: demo_services_def student_draft_def initial_state_def)

text \<open>
  C5. Every call of a submission sends the student ID and the role
  identifier determined by the role alone: the draft's student ID and 3 for a student,
  null and 2 otherwise. For a role other than student the draft's student ID has no
  influence on the submission at all.
\<close>

theorem studentId_ignored_unless_student:
  "(\<forall>e \<in> set (snd (handleSubmit sv s)). \<forall>f. sent_fields e = Some f \<longrightarrow>
      f = (if role s = ''student'' then (Some (studentId s), 3) else (None, 2))) \<and>
   (role s \<noteq> ''student'' \<longrightarrow>
      handleSubmit sv (s\<lparr>studentId := x\<rparr>) =
        (fst (handleSubmit sv s)\<lparr>studentId := x\<rparr>, snd (handleSubmit sv s)))"
proof (intro conjI ballI allI impI)
  fix e f
  assume "e \<in> set (snd (handleSubmit sv s))" and "sent_fields e = Some f"
  then show "f = (if role s = ''student'' then (Some (studentId s), 3) else (None, 2))"
    using try_catch_sent_fields [of e sv s f]
    by (cases "spec_validate sv s") (simp_all add: handleSubmit_eq)
next
  assume admin: "role s \<noteq> ''student''"
  show "handleSubmit sv (s\<lparr>studentId := x\<rparr>) =
          (fst (handleSubmit sv s)\<lparr>studentId := x\<rparr>, snd (handleSubmit sv s))"
  proof (cases "spec_validate sv s")
    case None
    with admin show ?thesis
      by (simp add: handleSubmit_eq spec_validate_studentId try_catch_studentId)
  next
    case (Some m)
    with admin show ?thesis
      by (simp add: handleSubmit_eq spec_validate_studentId)
  qed
qed

theorem studentId_ignored_unless_student_witness:
  "role admin_draft \<noteq> ''student'' \<and> studentId admin_draft = ''junk'' \<and>
   map sent_fields (snd (handleSubmit demo_services admin_draft)) =
     [Some (None, 2), Some (None, 2), None] \<and>
   map sent_fields (snd (handleSubmit demo_services student_draft)) =
     [Some (Some ''12342023'', 3), Some (Some ''12342023'', 3), None] \<and>
   handleSubmit demo_services (admin_draft\<lparr>studentId := ''12342023''\<rparr>) =
     (fst (handleSubmit demo_services admin_draft)\<lparr>studentId := ''12342023''\<rparr>,
      snd (handleSubmit demo_services admin_draft))"
  using studentId_ignored_unless_student [of demo_services admin_draft "''12342023''"]
  by (simp add: handleSubmit_eq spec_validate_def spec_checks_def spec_email_domain_ok_def
      spec_studentId_ok_def is_digit_def demo_services_def student_draft_def admin_draft_def
      initial_state_def try_catch_def try_block_def signUp_args_def insert_args_def)

text \<open>
  C6. The profile insert is made only directly after an auth call that
  returned a user, for the row of that user. When the auth call fails, the submission
  ends with the service's message shown as it is, the busy flag cleared, and the auth
  call as its only call.
\<close>

theorem calls_sequential:
  "(InsertUsers row \<in> set (snd (handleSubmit sv s)) \<longrightarrow>
      (\<exists>uid rest. auth_signUp sv (signUp_args s) = Inr uid \<and> row = insert_args uid s \<and>
         snd (handleSubmit sv s) = SignUp (signUp_args s) # InsertUsers row # rest)) \<and>
   (spec_validate sv s = None \<and> auth_signUp sv (signUp_args s) = Inl m \<longrightarrow>
      handleSubmit sv s =
        (s\<lparr>error := Some m, isLoading := False\<rparr>, [SignUp (signUp_args s)]))"
proof (intro conjI impI)
  assume ins: "InsertUsers row \<in> set (snd (handleSubmit sv s))"
  then have "spec_validate sv s = None"
    by (cases "spec_validate sv s") (simp_all add: handleSubmit_eq)
  with ins show "\<exists>uid rest. auth_signUp sv (signUp_args s) = Inr uid \<and> row = insert_args uid s \<and>
         snd (handleSubmit sv s) = SignUp (signUp_args s) # InsertUsers row # rest"
    by (auto simp: handleSubmit_eq try_catch_def try_block_def
        split: sum.splits option.splits)
next
  assume "spec_validate sv s = None \<and> auth_signUp sv (signUp_args s) = Inl m"
  then show "handleSubmit sv s =
        (s\<lparr>error := Some m, isLoading := False\<rparr>, [SignUp (signUp_args s)])"
    by (simp add: handleSubmit_eq try_catch_auth_error)
qed

theorem calls_sequential_witness:
  "InsertUsers (insert_args ''user-1'' student_draft)
     \<in> set (snd (handleSubmit demo_services student_draft)) \<and>
   auth_signUp demo_services (signUp_args student_draft) = Inr ''user-1'' \<and>
   spec_validate demo_services (student_draft\<lparr>email := ''taken@ashesi.edu.gh''\<rparr>) = None \<and>
   handleSubmit demo_services (student_draft\<lparr>email := ''taken@ashesi.edu.gh''\<rparr>) =
     (student_draft\<lparr>email := ''taken@ashesi.edu.gh'', error := Some ''User already registered''\<rparr>,
      [SignUp (signUp_args (student_draft\<lparr>email := ''taken@ashesi.edu.gh''\<rparr>))])"
  using calls_sequential [of "insert_args ''user-1'' student_draft" demo_services student_draft]
    calls_sequential [of _ demo_services "student_draft\<lparr>email := ''taken@ashesi.edu.gh''\<rparr>"
      "''User already registered''"]
  by (simp add: handleSubmit_eq spec_validate_def spec_checks_def spec_email_domain_ok_def
      spec_studentId_ok_def is_digit_def demo_services_def student_draft_def
      initial_state_def try_catch_def try_block_def signUp_args_def insert_args_def)

text \<open>
  C7. With valid input, a successful auth call and a failing insert, the
  message of the insert error is shown, the busy flag is cleared, the success flag is
  left as it was and no timer is started; the auth call and the insert are the only calls,
  so nothing undoes the account.
\<close>

theorem insert_failure_not_compensated:
  assumes "spec_validate sv s = None"
    and "auth_signUp sv (signUp_args s) = Inr uid"
    and "users_insert sv (insert_args uid s) = Some m"
  shows "handleSubmit sv s =
           (s\<lparr>error := Some m, isLoading := False\<rparr>,
            [SignUp (signUp_args s), InsertUsers (insert_args uid s)]) \<and>
         showSuccess (fst (handleSubmit sv s)) = showSuccess s \<and>
         (\<forall>cb delay. SetTimeout cb delay \<notin> set (snd (handleSubmit sv s)))"
  using assms by (simp add: handleSubmit_eq try_catch_insert_error)

theorem insert_failure_not_compensated_witness:
  "spec_validate demo_services (student_draft\<lparr>lastName := []\<rparr>) = None \<and>
   auth_signUp demo_services (signUp_args (student_draft\<lparr>lastName := []\<rparr>)) = Inr ''user-1'' \<and>
   handleSubmit demo_services (student_draft\<lparr>lastName := []\<rparr>) =
     (student_draft\<lparr>lastName := [], error := Some ''null value in column lname''\<rparr>,
      [SignUp (signUp_args (student_draft\<lparr>lastName := []\<rparr>)),
       InsertUsers (insert_args ''user-1'' (student_draft\<lparr>lastName := []\<rparr>))]) \<and>
   showSuccess (fst (handleSubmit demo_services (student_draft\<lparr>lastName := []\<rparr>))) = False"
  using insert_failure_not_compensated [of demo_services "student_draft\<lparr>lastName := []\<rparr>"
      "''user-1''" "''null value in column lname''"]
  by (simp add: spec_validate_def spec_checks_def spec_email_domain_ok_def
      spec_studentId_ok_def is_digit_def demo_services_def student_draft_def
      initial_state_def signUp_args_def insert_args_def)

text \<open>
  C8. With valid input and both calls succeeding, the success flag is set and
  one timer of 5000 milliseconds is started, whose callback navigates to
  \<open>/dashboard/student\<close> for a student and to \<open>/dashboard/admin\<close> otherwise.
\<close>

theorem success_navigation:
  assumes "spec_validate sv s = None"
    and "auth_signUp sv (signUp_args s) = Inr uid"
    and "users_insert sv (insert_args uid s) = None"
  shows "handleSubmit sv s =
           (s\<lparr>error := None, isLoading := True, showSuccess := True\<rparr>,
            [SignUp (signUp_args s), InsertUsers (insert_args uid s),
             SetTimeout (RedirectByRole (role s)) 5000]) \<and>
         run_callback (RedirectByRole (role s)) =
           (if role s = ''student'' then ''/dashboard/student'' else ''/dashboard/admin'')"
  using assms by (simp add: handleSubmit_eq try_catch_success)

theorem success_navigation_witness:
  "spec_validate demo_services student_draft = None \<and>
   spec_validate demo_services admin_draft = None \<and>
   handleSubmit demo_services student_draft =
     (student_draft\<lparr>isLoading := True, showSuccess := True\<rparr>,
      [SignUp (signUp_args student_draft), InsertUsers (insert_args ''user-1'' student_draft),
       SetTimeout (RedirectByRole ''student'') 5000]) \<and>
   run_callback (RedirectByRole (role student_draft)) = ''/dashboard/student'' \<and>
   handleSubmit demo_services admin_draft =
     (admin_draft\<lparr>isLoading := True, showSuccess := True\<rparr>,
      [SignUp (signUp_args admin_draft), InsertUsers (insert_args ''user-1'' admin_draft),
       SetTimeout (RedirectByRole ''admin'') 5000]) \<and>
   run_callback (RedirectByRole (role admin_draft)) = ''/dashboard/admin''"
  using success_navigation [of demo_services student_draft "''user-1''"]
    success_navigation [of demo_services admin_draft "''user-1''"]
  by (simp add: spec_validate_def spec_checks_def spec_email_domain_ok_def
      spec_studentId_ok_def is_digit_def demo_services_def student_draft_def admin_draft_def
      initial_state_def signUp_args_def insert_args_def)

text \<open>
  C9. On each failing path (a failed check, a failed auth call, a failed insert)
  the handler ends with the triggering message shown, the busy flag cleared and the
  success flag untouched; each external call has been made at most once and no timer is
  started.
\<close>

theorem failure_returns_to_idle:
  assumes "spec_validate sv s = Some m \<or>
           (spec_validate sv s = None \<and> auth_signUp sv (signUp_args s) = Inl m) \<or>
           (spec_validate sv s = None \<and>
            (\<exists>uid. auth_signUp sv (signUp_args s) = Inr uid \<and>
                   users_insert sv (insert_args uid s) = Some m))"
  shows "fst (handleSubmit sv s) = s\<lparr>error := Some m, isLoading := False\<rparr> \<and>
         error (fst (handleSubmit sv s)) = Some m \<and>
         \<not> isLoading (fst (handleSubmit sv s)) \<and>
         showSuccess (fst (handleSubmit sv s)) = showSuccess s \<and>
         (\<exists>uid. snd (handleSubmit sv s) = [] \<or>
                snd (handleSubmit sv s) = [SignUp (signUp_args s)] \<or>
                snd (handleSubmit sv s) =
                  [SignUp (signUp_args s), InsertUsers (insert_args uid s)])"
  using assms
  by (auto simp: handleSubmit_eq try_catch_auth_error try_catch_insert_error)

theorem failure_returns_to_idle_witness:
  "spec_validate demo_services (student_draft\<lparr>studentId := ''1234''\<rparr>) =
     Some ''Invalid Student ID format. Expected format: XXXX20XX'' \<and>
   fst (handleSubmit demo_services (student_draft\<lparr>studentId := ''1234'', isLoading := True\<rparr>)) =
     student_draft\<lparr>studentId := ''1234'',
       error := Some ''Invalid Student ID format. Expected format: XXXX20XX''\<rparr> \<and>
   fst (handleSubmit demo_services (student_draft\<lparr>email := ''taken@ashesi.edu.gh''\<rparr>)) =
     student_draft\<lparr>email := ''taken@ashesi.edu.gh'', error := Some ''User already registered''\<rparr> \<and>
   fst (handleSubmit demo_services (student_draft\<lparr>lastName := []\<rparr>)) =
     student_draft\<lparr>lastName := [], error := Some ''null value in column lname''\<rparr> \<and>
   isLoading student_draft = False"
  using failure_returns_to_idle [of demo_services
      "student_draft\<lparr>studentId := ''1234'', isLoading := True\<rparr>"
      "''Invalid Student ID format. Expected format: XXXX20XX''"]
    failure_returns_to_idle [of demo_services
      "student_draft\<lparr>email := ''taken@ashesi.edu.gh''\<rparr>" "''User already registered''"]
    failure_returns_to_idle [of demo_services
      "student_draft\<lparr>lastName := []\<rparr>" "''null value in column lname''"]
  by (simp add: spec_validate_def spec_checks_def spec_email_domain_ok_def
      spec_studentId_ok_def is_digit_def demo_services_def student_draft_def
      initial_state_def signUp_args_def insert_args_def)

text \<open>
  C10. After the handler the busy flag is set exactly when validation passed
  and both calls succeeded, which is exactly when the redirect timer was started and
  exactly when no error is shown: the successful path never clears it.
\<close>

theorem success_keeps_loading:
  "isLoading (fst (handleSubmit sv s)) =
     (spec_validate sv s = None \<and>
      (\<exists>uid. auth_signUp sv (signUp_args s) = Inr uid \<and>
             users_insert sv (insert_args uid s) = None)) \<and>
   isLoading (fst (handleSubmit sv s)) =
     (\<exists>cb delay. SetTimeout cb delay \<in> set (snd (handleSubmit sv s))) \<and>
   isLoading (fst (handleSubmit sv s)) = (error (fst (handleSubmit sv s)) = None)"
proof (cases "spec_validate sv s")
  case (Some m)
  then show ?thesis by (simp add: handleSubmit_eq)
next
  case None
  show ?thesis
  proof (cases "auth_signUp sv (signUp_args s)")
    case (Inl m)
    with None show ?thesis by (simp add: handleSubmit_eq try_catch_auth_error)
  next
    case (Inr uid)
    with None show ?thesis
      by (cases "users_insert sv (insert_args uid s)")
        (simp_all add: handleSubmit_eq try_catch_insert_error try_catch_success)
  qed
qed

theorem success_keeps_loading_witness:
  "isLoading (fst (handleSubmit demo_services student_draft)) \<and>
   spec_validate demo_services student_draft = None \<and>
   auth_signUp demo_services (signUp_args student_draft) = Inr ''user-1'' \<and>
   users_insert demo_services (insert_args ''user-1'' student_draft) = None \<and>
   isLoading student_draft = False"
  using success_keeps_loading [of demo_services student_draft]
  by (simp add: spec_validate_def spec_checks_def spec_email_domain_ok_def
      spec_studentId_ok_def is_digit_def demo_services_def student_draft_def
      initial_state_def signUp_args_def insert_args_def)

end
